theory Spec2Isabelle
  imports Complex_Main "HOL-Library.Char_ord" "HOL-Library.List_Lexorder"
begin

section \<open>Data model\<close>

text \<open>
  The dashboard of \<^verbatim>\<open>app.py\<close> is a linear pipeline over pandas tables and numpy
  arrays. A table is an index (row labels), a list of column labels and the rows of cells;
  every row has one cell per column and there is one row per index label. A genotype or
  metadata cell is a string or null; a numeric cell is a number or NaN (\<open>None\<close>).
  An array is the list of its rows; the column count of an array without rows is not
  represented. Exceptions of the Python code are values of \<open>error\<close>.
\<close>

datatype error =
    ValueError
  | KeyError
  | IndexError
  | AttributeError
  | UnboundLocalError
  | LibraryError string

type_synonym cell = "string option"

type_synonym num = "rat option"

type_synonym ndarray = "num list list"

record 'a frame =
  index :: "string list"
  columns :: "string list"
  vals :: "'a list list"

text \<open>
  The estimators of the third-party libraries. Their hyperparameters are the ones the
  source passes; what they compute is a parameter of the model (the record \<open>lib\<close>).
\<close>

datatype reducer =
    PCA (n_components: nat)
  | TSNE (n_components: nat) (n_jobs: nat)
  | UMAP (n_components: nat) (min_dist: rat) (metric: string) (random_state: nat)

text \<open>One row of the table \<^verbatim>\<open>SNPs(...).snps\<close>, which is indexed by rsid.\<close>

record userrow =
  chrom :: string
  pos :: nat
  genotype :: cell

text \<open>The parsed variant file: its sample names and, per variant, its ID and the
  genotype bases of every sample (\<^verbatim>\<open>variant.gt_bases\<close>). A variant without an
  identifier is not represented: the panels' variants are named by rsid.\<close>

record variant =
  ID :: string
  gt_bases :: "string list"

record vcf =
  samples :: "string list"
  variants :: "variant list"

text \<open>
  \<open>'e\<close> is a fitted one-hot encoder, \<open>'r\<close> a fitted reducer, \<open>'k\<close> a fitted
  nearest-neighbour classifier. Every library call may raise. The first argument of
  \<open>imputer_fit_transform\<close> and of \<open>knn_fit\<close> is \<^verbatim>\<open>n_neighbors\<close>.
\<close>

record ('e, 'r, 'k) lib =
  ohe_fit_transform :: "string list \<Rightarrow> cell frame \<Rightarrow> error + (num frame \<times> 'e)"
  ohe_transform :: "'e \<Rightarrow> cell frame \<Rightarrow> error + ndarray"
  reducer_fit_transform :: "reducer \<Rightarrow> ndarray \<Rightarrow> error + (ndarray \<times> 'r)"
  reducer_transform :: "'r \<Rightarrow> ndarray \<Rightarrow> error + ndarray"
  imputer_fit_transform :: "nat \<Rightarrow> ndarray \<Rightarrow> error + ndarray"
  knn_fit :: "nat \<Rightarrow> ndarray \<Rightarrow> cell list \<Rightarrow> error + 'k"
  knn_predict :: "'k \<Rightarrow> ndarray \<Rightarrow> error + cell list"
  knn_predict_proba :: "'k \<Rightarrow> ndarray \<Rightarrow> error + ndarray"
  knn_classes :: "'k \<Rightarrow> string list"
  snps_parse :: "string \<Rightarrow> error + (string \<times> userrow) list"
  vcf_open :: "string \<Rightarrow> error + vcf"
  read_csv :: "string \<Rightarrow> error + cell frame"
  read_text :: "string \<Rightarrow> error + string"

text \<open>A cell of the table handed to the plot: a coordinate or a metadata string.\<close>

datatype obj = Number num | Text cell

record figure =
  fig_data :: "obj frame"
  fig_color :: string
  fig_symbol :: string
  fig_size :: "nat list"
  fig_marker_size :: "nat option"

text \<open>What one run of the script shows to the user, in order.\<close>

datatype event =
    Markdown string
  | Error_message string
  | Plotly_chart figure
  | Subheader string
  | Text_line string
  | Dataframe_cells "cell frame"
  | Dataframe_nums "num frame"

text \<open>The widgets' values in one run: three radio selectors, the file uploader (the
  content of the uploaded file, if any) and two checkboxes.\<close>

record inputs =
  aisnp_set :: string
  dimensionality_reduction_method :: string
  population_level :: string
  user_file :: "string option"
  show_user_gts :: bool
  show_1kg :: bool

text \<open>The local variables of \<^verbatim>\<open>main\<close> that are alive when it returns.\<close>

record 'k locals =
  final_X_reduced :: "ndarray option"
  final_dfsamples :: "cell frame"
  final_aisnps_1kg :: "cell frame"
  final_knn :: "'k option"
  final_user_reduced :: "ndarray option"
  final_user_pop :: "cell option"
  final_user_pop_probs :: "ndarray option"

section \<open>Table and array operations\<close>

text \<open>\<^verbatim>\<open>pd.DataFrame(array, columns=..., index=...)\<close>: the array's shape has to
  match the labels, otherwise pandas raises \<^verbatim>\<open>ValueError\<close>.\<close>

definition DataFrame :: "'a list list \<Rightarrow> string list \<Rightarrow> string list \<Rightarrow> error + 'a frame" where
  "DataFrame X cols idx =
     (if length X = length idx \<and> list_all (\<lambda>row. length row = length cols) X
      then Inr \<lparr>index = idx, columns = cols, vals = X\<rparr>
      else Inl ValueError)"

text \<open>\<^verbatim>\<open>pd.DataFrame(df, index=idx)\<close> re-indexes \<open>df\<close>: the row of each label of
  \<open>idx\<close>, nulls where \<open>df\<close> has no such row. Identical indexes are kept as they are;
  otherwise duplicate labels in \<open>df\<close> raise.\<close>

definition reindex :: "'a option frame \<Rightarrow> string list \<Rightarrow> error + 'a option frame" where
  "reindex df idx =
     (if index df = idx then Inr df
      else if \<not> distinct (index df) then Inl ValueError
      else Inr \<lparr>index = idx, columns = columns df,
                vals = map (\<lambda>l. case map_of (zip (index df) (vals df)) l of
                                   None \<Rightarrow> replicate (length (columns df)) None
                                 | Some row \<Rightarrow> row) idx\<rparr>)"

text \<open>\<^verbatim>\<open>df[label] = values\<close> with a list: one value per row; an existing column is
  overwritten, a new one is added on the right. (With an empty index and a non-empty list
  pandas would adopt the list's positions as index; \<^verbatim>\<open>gt_bases\<close> has one entry per
  sample, so the variant file never leads there, and the model raises.)\<close>

definition setitem :: "'a frame \<Rightarrow> string \<Rightarrow> 'a list \<Rightarrow> error + 'a frame" where
  "setitem df label values =
     (if length values \<noteq> length (index df) then Inl ValueError
      else if label \<in> set (columns df)
      then Inr (df\<lparr>vals := map2 (\<lambda>row v. map2 (\<lambda>c x. if c = label then v else x) (columns df) row)
                                  (vals df) values\<rparr>)
      else Inr (df\<lparr>columns := columns df @ [label],
                   vals := map2 (\<lambda>row v. row @ [v]) (vals df) values\<rparr>))"

text \<open>\<^verbatim>\<open>df[label] = value\<close> with a scalar: every row gets the value.\<close>

definition setitem_scalar :: "'a frame \<Rightarrow> string \<Rightarrow> 'a \<Rightarrow> 'a frame" where
  "setitem_scalar df label v =
     (if label \<in> set (columns df)
      then df\<lparr>vals := map (\<lambda>row. map2 (\<lambda>c x. if c = label then v else x) (columns df) row) (vals df)\<rparr>
      else df\<lparr>columns := columns df @ [label], vals := map (\<lambda>row. row @ [v]) (vals df)\<rparr>)"

definition rows_at :: "'a frame \<Rightarrow> string \<Rightarrow> 'a list list" where
  "rows_at df k = map snd (filter (\<lambda>lr. fst lr = k) (zip (index df) (vals df)))"

text \<open>\<^verbatim>\<open>df.join(other, how="outer")\<close>: overlapping column labels raise; the result
  has the union of the two indexes, sorted, and per label every pairing of the rows of the
  two sides, with nulls for a side that has no row of that label.\<close>

definition join_outer :: "'a option frame \<Rightarrow> 'a option frame \<Rightarrow> error + 'a option frame" where
  "join_outer df other =
     (if set (columns df) \<inter> set (columns other) \<noteq> {} then Inl ValueError
      else
        let keys = sort (remdups (index df @ index other));
            nl = replicate (length (columns df)) None;
            nr = replicate (length (columns other)) None;
            block = (\<lambda>k. let ls = rows_at df k; rs = rows_at other k in
                       if ls = [] then map (\<lambda>r. (k, nl @ r)) rs
                       else if rs = [] then map (\<lambda>l. (k, l @ nr)) ls
                       else concat (map (\<lambda>l. map (\<lambda>r. (k, l @ r)) rs) ls));
            joined = concat (map block keys)
        in Inr \<lparr>index = map fst joined, columns = columns df @ columns other,
                 vals = map snd joined\<rparr>)"

text \<open>\<^verbatim>\<open>df[label]\<close>: the cells of a column, \<^verbatim>\<open>KeyError\<close> without such a column.\<close>

definition column :: "'a option frame \<Rightarrow> string \<Rightarrow> error + 'a option list" where
  "column df label =
     (if label \<in> set (columns df)
      then Inr (map (\<lambda>row. case map_of (zip (columns df) row) label of
                              None \<Rightarrow> None
                            | Some c \<Rightarrow> c) (vals df))
      else Inl KeyError)"

text \<open>\<^verbatim>\<open>df.loc[label] = values\<close>: the rows of that label are overwritten; without
  such a row the table grows by one.\<close>

definition set_row :: "'a frame \<Rightarrow> string \<Rightarrow> 'a list \<Rightarrow> error + 'a frame" where
  "set_row df label values =
     (if length values \<noteq> length (columns df) then Inl ValueError
      else if label \<in> set (index df)
      then Inr (df\<lparr>vals := map2 (\<lambda>l row. if l = label then values else row) (index df) (vals df)\<rparr>)
      else Inr (df\<lparr>index := index df @ [label], vals := vals df @ [values]\<rparr>))"

text \<open>\<^verbatim>\<open>np.concatenate((A, B))\<close> stacks rows; the column counts have to agree.\<close>

definition concatenate :: "'a list list \<Rightarrow> 'a list list \<Rightarrow> error + 'a list list" where
  "concatenate A B =
     (if list_all (\<lambda>a. list_all (\<lambda>b. length a = length b) B) A then Inr (A @ B)
      else Inl ValueError)"

text \<open>\<^verbatim>\<open>np.hstack((A, B))\<close> puts rows side by side; the row counts have to agree.\<close>

definition hstack :: "num list list \<Rightarrow> cell list list \<Rightarrow> error + obj list list" where
  "hstack A B =
     (if length A = length B then Inr (map2 (\<lambda>a b. map Number a @ map Text b) A B)
      else Inl ValueError)"

text \<open>\<^verbatim>\<open>np.rint\<close>: the nearest integer, a half going to the even neighbour; NaN
  stays NaN.\<close>

definition rint :: "num \<Rightarrow> num" where
  "rint x =
     (case x of
        None \<Rightarrow> None
      | Some q \<Rightarrow>
          (let f = \<lfloor>q\<rfloor>; d = q - of_int f in
           Some (if d < 1 / 2 then of_int f
                 else if 1 / 2 < d then of_int (f + 1)
                 else if even f then of_int f else of_int (f + 1))))"

definition str_cell :: "cell \<Rightarrow> string" where
  "str_cell c = (case c of None \<Rightarrow> ''nan'' | Some s \<Rightarrow> s)"

definition str_error :: "error \<Rightarrow> string" where
  "str_error e =
     (case e of
        ValueError \<Rightarrow> ''ValueError''
      | KeyError \<Rightarrow> ''KeyError''
      | IndexError \<Rightarrow> ''IndexError''
      | AttributeError \<Rightarrow> ''AttributeError''
      | UnboundLocalError \<Rightarrow> ''UnboundLocalError''
      | LibraryError msg \<Rightarrow> msg)"

text \<open>\<^verbatim>\<open>df.set_index(label)\<close>: the cells of that column become the row labels and
  the column leaves the table. (\<^verbatim>\<open>read_csv\<close> yields distinct column labels.)\<close>

definition set_index :: "string \<Rightarrow> cell frame \<Rightarrow> error + cell frame" where
  "set_index label df =
     (if label \<notin> set (columns df) then Inl KeyError
      else
        let i = length (takeWhile (\<lambda>c. c \<noteq> label) (columns df)) in
        Inr \<lparr>index = map (\<lambda>row. str_cell (if i < length row then row ! i else None)) (vals df),
             columns = take i (columns df) @ drop (Suc i) (columns df),
             vals = map (\<lambda>row. take i row @ drop (Suc i) row) (vals df)\<rparr>)"

text \<open>\<^verbatim>\<open>df.drop(columns=labels)\<close>: a label that is no column raises.\<close>

definition drop_columns :: "string list \<Rightarrow> 'a frame \<Rightarrow> error + 'a frame" where
  "drop_columns labels df =
     (if \<not> set labels \<subseteq> set (columns df) then Inl KeyError
      else Inr (df\<lparr>columns := filter (\<lambda>c. c \<notin> set labels) (columns df),
                   vals := map (\<lambda>row. map snd (filter (\<lambda>cx. fst cx \<notin> set labels)
                                                   (zip (columns df) row))) (vals df)\<rparr>))"

text \<open>\<^verbatim>\<open>df.columns = names\<close>: as many names as columns.\<close>

definition set_columns :: "string list \<Rightarrow> 'a frame \<Rightarrow> error + 'a frame" where
  "set_columns names df =
     (if length names \<noteq> length (columns df) then Inl ValueError
      else Inr (df\<lparr>columns := names\<rparr>))"

section \<open>The pipeline stages\<close>

definition get_file_content_as_string :: "('e, 'r, 'k) lib \<Rightarrow> string \<Rightarrow> error + string" where
  "get_file_content_as_string L mdfile = read_text L mdfile"

definition get_1kg_samples :: "('e, 'r, 'k) lib \<Rightarrow> error + cell frame" where
  "get_1kg_samples L =
     (let onekg_samples = ''data/integrated_call_samples_v3.20130502.ALL.panel'' in
      case read_csv L onekg_samples of
        Inl e \<Rightarrow> Inl e
      | Inr raw \<Rightarrow>
          (case set_index ''sample'' raw of
             Inl e \<Rightarrow> Inl e
           | Inr indexed \<Rightarrow>
               (case drop_columns [''Unnamed: 4'', ''Unnamed: 5''] indexed of
                  Inl e \<Rightarrow> Inl e
                | Inr dropped \<Rightarrow>
                    set_columns [''population'', ''super population'', ''gender''] dropped)))"

definition encode_genotypes ::
  "('e, 'r, 'k) lib \<Rightarrow> cell frame \<Rightarrow> error + (num frame \<times> 'e)" where
  "encode_genotypes L df =
     (case ohe_fit_transform L (columns df) df of
        Inl e \<Rightarrow> Inl e
      | Inr (X, ohe) \<Rightarrow>
          (case reindex X (index df) of
             Inl e \<Rightarrow> Inl e
           | Inr X' \<Rightarrow> Inr (X', ohe)))"

definition dimensionality_reduction ::
  "('e, 'r, 'k) lib \<Rightarrow> num frame \<Rightarrow> string \<Rightarrow> error + (num frame option \<times> 'r option)" where
  "dimensionality_reduction L X algorithm =
     (let n_components = 3 in
      case (if algorithm = ''PCA'' then Some (PCA n_components)
            else if algorithm = ''t-SNE'' then Some (TSNE n_components 4)
            else if algorithm = ''UMAP'' then Some (UMAP n_components (2 / 10) ''dice'' 42)
            else None) of
        None \<Rightarrow> Inr (None, None)
      | Some reducer \<Rightarrow>
          (case reducer_fit_transform L reducer (vals X) of
             Inl e \<Rightarrow> Inl e
           | Inr (X_reduced, fitted) \<Rightarrow>
               (case DataFrame X_reduced [''x'', ''y'', ''z''] (index X) of
                  Inl e \<Rightarrow> Inl e
                | Inr df \<Rightarrow> Inr (Some df, Some fitted))))"

text \<open>The loop of \<^verbatim>\<open>filter_user_genotypes\<close> over the panel's columns.
  \<^verbatim>\<open>userdf.loc[snp]\<close> raises \<^verbatim>\<open>KeyError\<close> without a row of that rsid, and the
  loop goes on; with one row the genotype is a scalar; with several rows it is a series
  that pandas cannot align with the one-row record.\<close>

fun filter_user_genotypes_loop ::
  "(string \<times> userrow) list \<Rightarrow> cell frame \<Rightarrow> string list \<Rightarrow> error + cell frame" where
  "filter_user_genotypes_loop userdf user_record [] = Inr user_record"
| "filter_user_genotypes_loop userdf user_record (snp # snps) =
     (case filter (\<lambda>kr. fst kr = snp) userdf of
        [] \<Rightarrow> filter_user_genotypes_loop userdf user_record snps
      | [kr] \<Rightarrow>
          filter_user_genotypes_loop userdf
            (setitem_scalar user_record snp (genotype (snd kr))) snps
      | _ \<Rightarrow> Inl ValueError)"

definition filter_user_genotypes ::
  "(string \<times> userrow) list \<Rightarrow> cell frame \<Rightarrow> error + (cell frame \<times> cell frame)" where
  "filter_user_genotypes userdf aisnps_1kg =
     (let user_record = \<lparr>index = [''your_sample''], columns = columns aisnps_1kg,
                          vals = [replicate (length (columns aisnps_1kg)) None]\<rparr> in
      case filter_user_genotypes_loop userdf user_record (columns user_record) of
        Inl e \<Rightarrow> Inl e
      | Inr user_record' \<Rightarrow>
          Inr (user_record',
               aisnps_1kg\<lparr>index := index aisnps_1kg @ index user_record',
                          vals := vals aisnps_1kg @ vals user_record'\<rparr>))"

definition impute_missing :: "('e, 'r, 'k) lib \<Rightarrow> ndarray \<Rightarrow> error + num list" where
  "impute_missing L aisnps_1kg =
     (case imputer_fit_transform L 9 aisnps_1kg of
        Inl e \<Rightarrow> Inl e
      | Inr imputed_aisnps \<Rightarrow>
          (if imputed_aisnps = [] then Inl IndexError
           else Inr (map rint (last imputed_aisnps))))"

text \<open>The loop of \<^verbatim>\<open>vcf2df\<close> over the variants of the file.\<close>

fun vcf2df_loop :: "cell frame \<Rightarrow> variant list \<Rightarrow> error + cell frame" where
  "vcf2df_loop df [] = Inr df"
| "vcf2df_loop df (v # vs) =
     (case setitem df (ID v) (map (\<lambda>gt. Some (filter (\<lambda>c. c \<noteq> CHR ''|'') gt)) (gt_bases v)) of
        Inl e \<Rightarrow> Inl e
      | Inr df' \<Rightarrow> vcf2df_loop df' vs)"

definition vcf2df :: "('e, 'r, 'k) lib \<Rightarrow> string \<Rightarrow> cell frame \<Rightarrow> error + cell frame" where
  "vcf2df L vcf_fname dfsamples =
     (case vcf_open L vcf_fname of
        Inl e \<Rightarrow> Inl e
      | Inr vcf_file \<Rightarrow>
          (let df = \<lparr>index = samples vcf_file, columns = [],
                     vals = map (\<lambda>_. []) (samples vcf_file)\<rparr> in
           case vcf2df_loop df (variants vcf_file) of
             Inl e \<Rightarrow> Inl e
           | Inr df' \<Rightarrow> join_outer df' dfsamples))"

definition plot_3d :: "ndarray \<Rightarrow> cell frame \<Rightarrow> string \<Rightarrow> error + figure" where
  "plot_3d X_reduced dfsamples pop =
     (case hstack X_reduced (vals dfsamples) of
        Inl e \<Rightarrow> Inl e
      | Inr X \<Rightarrow>
          (case DataFrame X [''component_1'', ''component_2'', ''component_3'',
                             ''population'', ''super population'', ''gender'']
                  (index dfsamples) of
             Inl e \<Rightarrow> Inl e
           | Inr df \<Rightarrow>
               (if pop \<notin> set (columns df) then Inl ValueError
                else Inr \<lparr>fig_data = df, fig_color = pop, fig_symbol = pop,
                          fig_size = map (\<lambda>l. if l = ''me'' then 75 else 16) (index dfsamples),
                          fig_marker_size =
                            (if ''me'' \<in> set (index dfsamples) then None else Some 2)\<rparr>)))"

section \<open>The script\<close>

text \<open>
  One run of \<^verbatim>\<open>main\<close> gives what was shown to the user up to the end of the run and
  either the exception that ended it or the local variables at its return. The function is
  split where the source branches: \<open>main_tail\<close> is lines 117 to 128, \<open>main_user\<close> is
  lines 74 to 110 (the part of the upload branch after the \<^verbatim>\<open>try\<close> statement), and
  \<open>main\<close> is the rest. The local variable \<^verbatim>\<open>userdf\<close> is bound only by the
  assignment of line 67, so it is an option here, and reading it unbound raises.
\<close>

definition main_tail ::
  "('e, 'r, 'k) lib \<Rightarrow> inputs \<Rightarrow> event list \<Rightarrow> 'k locals \<Rightarrow> event list \<times> (error + 'k locals)" where
  "main_tail L inp evs st =
     (let evs1 = evs @
            (if show_1kg inp
             then [Subheader ''Genotypes of Ancestry-Informative SNPs in 1000 Genomes Project Samples'',
                   Dataframe_cells (final_aisnps_1kg st)]
             else []) in
      case get_file_content_as_string L ''details.md'' of
        Inl e \<Rightarrow> (evs1, Inl e)
      | Inr readme_text \<Rightarrow> (evs1 @ [Markdown readme_text], Inr st))"

definition main_user ::
  "('e, 'r, 'k) lib \<Rightarrow> inputs \<Rightarrow> event list \<Rightarrow> (string \<times> userrow) list option \<Rightarrow>
   cell frame \<Rightarrow> 'e \<Rightarrow> num frame \<Rightarrow> 'r option \<Rightarrow> num frame option \<Rightarrow> cell frame \<Rightarrow>
   event list \<times> (error + 'k locals)" where
  "main_user L inp evs userdf aisnps_1kg encoder X_encoded reducer X_reduced dfsamples =
     (case userdf of
        None \<Rightarrow> (evs, Inl UnboundLocalError)
      | Some userdf' \<Rightarrow>
     (case filter_user_genotypes userdf' aisnps_1kg of
        Inl e \<Rightarrow> (evs, Inl e)
      | Inr (user_record, aisnps_1kg') \<Rightarrow>
     (case ohe_transform L encoder user_record of
        Inl e \<Rightarrow> (evs, Inl e)
      | Inr user_encoded \<Rightarrow>
     (case concatenate (vals X_encoded) user_encoded of
        Inl e \<Rightarrow> (evs, Inl e)
      | Inr X_encoded' \<Rightarrow>
     (case impute_missing L X_encoded' of
        Inl e \<Rightarrow> (evs, Inl e)
      | Inr user_imputed \<Rightarrow>
     (case reducer of
        None \<Rightarrow> (evs, Inl AttributeError)
      | Some reducer' \<Rightarrow>
     (case reducer_transform L reducer' [user_imputed] of
        Inl e \<Rightarrow> (evs, Inl e)
      | Inr user_reduced \<Rightarrow>
     (case column dfsamples (population_level inp) of
        Inl e \<Rightarrow> (evs, Inl e)
      | Inr labels \<Rightarrow>
     (case X_reduced of
        None \<Rightarrow> (evs, Inl ValueError)
      | Some X_reduced' \<Rightarrow>
     (case knn_fit L 9 (vals X_reduced') labels of
        Inl e \<Rightarrow> (evs, Inl e)
      | Inr knn \<Rightarrow>
     (case concatenate (vals X_reduced') user_reduced of
        Inl e \<Rightarrow> (evs, Inl e)
      | Inr X_reduced'' \<Rightarrow>
     (case set_row dfsamples ''me'' (replicate 3 (Some ''me'')) of
        Inl e \<Rightarrow> (evs, Inl e)
      | Inr dfsamples' \<Rightarrow>
     (case plot_3d X_reduced'' dfsamples' (population_level inp) of
        Inl e \<Rightarrow> (evs, Inl e)
      | Inr plotly_3d \<Rightarrow>
     (let evs1 = evs @ [Plotly_chart plotly_3d] in
      case knn_predict L knn user_reduced of
        Inl e \<Rightarrow> (evs1, Inl e)
      | Inr [] \<Rightarrow> (evs1, Inl IndexError)
      | Inr (user_pop # _) \<Rightarrow>
     (let evs2 = evs1 @
            [Subheader (''Your predicted '' @ population_level inp),
             Text_line (''Your predicted population using KNN classifier is '' @ str_cell user_pop),
             Subheader (''Your predicted '' @ population_level inp @ '' probabilities'')] in
      case knn_predict_proba L knn user_reduced of
        Inl e \<Rightarrow> (evs2, Inl e)
      | Inr user_pop_probs \<Rightarrow>
     (case user_pop_probs of
        [] \<Rightarrow> (evs2, Inl IndexError)
      | probs0 # _ \<Rightarrow>
     (case DataFrame [probs0] (knn_classes L knn) [''me''] of
        Inl e \<Rightarrow> (evs2, Inl e)
      | Inr user_probs_df \<Rightarrow>
          main_tail L inp
            (evs2 @ [Dataframe_nums user_probs_df] @
               (if show_user_gts inp
                then [Subheader ''Genotypes of Ancestry-Informative SNPs in Your Sample'',
                      Dataframe_cells user_record]
                else []))
            \<lparr>final_X_reduced = Some X_reduced'', final_dfsamples = dfsamples',
             final_aisnps_1kg = aisnps_1kg', final_knn = Some knn,
             final_user_reduced = Some user_reduced, final_user_pop = Some user_pop,
             final_user_pop_probs = Some user_pop_probs\<rparr>)))))))))))))))))"

definition main :: "('e, 'r, 'k) lib \<Rightarrow> inputs \<Rightarrow> event list \<times> (error + 'k locals)" where
  "main L inp =
     (case get_file_content_as_string L ''intro.md'' of
        Inl e \<Rightarrow> ([], Inl e)
      | Inr readme_text \<Rightarrow>
     (let evs = [Markdown readme_text] in
      case get_1kg_samples L of
        Inl e \<Rightarrow> (evs, Inl e)
      | Inr dfsamples \<Rightarrow>
     (case (if aisnp_set inp = ''Kidd et al. 55 AISNPs''
            then vcf2df L ''data/Kidd.55AISNP.1kG.vcf'' dfsamples
            else if aisnp_set inp = ''Seldin et al. 128 AISNPs''
            then vcf2df L ''data/Seldin.128AISNP.1kG.vcf'' dfsamples
            else Inl UnboundLocalError) of
        Inl e \<Rightarrow> (evs, Inl e)
      | Inr aisnps_1kg \<Rightarrow>
     (case encode_genotypes L aisnps_1kg of
        Inl e \<Rightarrow> (evs, Inl e)
      | Inr (X_encoded, encoder) \<Rightarrow>
     (case dimensionality_reduction L X_encoded (dimensionality_reduction_method inp) of
        Inl e \<Rightarrow> (evs, Inl e)
      | Inr (X_reduced, reducer) \<Rightarrow>
     (case user_file inp of
        Some uploaded \<Rightarrow>
          (case snps_parse L uploaded of
             Inl e \<Rightarrow>
               main_user L inp
                 (evs @ [Error_message
                           (''Sorry, there was a problem processing your genotypes file.'' @
                            [CHR 0x0A] @ '' '' @ str_error e)])
                 None aisnps_1kg encoder X_encoded reducer X_reduced dfsamples
           | Inr userdf \<Rightarrow>
               main_user L inp evs (Some userdf) aisnps_1kg encoder X_encoded reducer
                 X_reduced dfsamples)
      | None \<Rightarrow>
          (case X_reduced of
             None \<Rightarrow> (evs, Inl ValueError)
           | Some X_reduced' \<Rightarrow>
               (case plot_3d (vals X_reduced') dfsamples (population_level inp) of
                  Inl e \<Rightarrow> (evs, Inl e)
                | Inr plotly_3d \<Rightarrow>
                    main_tail L inp (evs @ [Plotly_chart plotly_3d])
                      \<lparr>final_X_reduced = Some (vals X_reduced'), final_dfsamples = dfsamples,
                       final_aisnps_1kg = aisnps_1kg, final_knn = None,
                       final_user_reduced = None, final_user_pop = None,
                       final_user_pop_probs = None\<rparr>))))))))"

section \<open>A small library instance and concrete inputs\<close>

text \<open>
  The theorems below hold for every library. To run the pipeline on concrete data, this
  instance fixes simple estimators: the encoder numbers a cell by the length of its
  string, the reducer keeps the first \<open>n_components\<close> columns, the imputer fills NaN
  with \<open>1/2\<close>, and the classifier answers with the label of the first training sample.
  The variant file has two samples and two variants, the panel file describes the same
  two samples, and two uploads are known: one that parses and one that does not.
\<close>

definition toy_encode :: "cell list list \<Rightarrow> ndarray" where
  "toy_encode X = map (map (map_option (\<lambda>g. of_nat (length g)))) X"

definition toy_classes :: "cell list \<Rightarrow> string list" where
  "toy_classes labels = sort (remdups (map str_cell labels))"

definition toy_lib :: "(unit, nat, ndarray \<times> cell list) lib" where
  "toy_lib =
     \<lparr>ohe_fit_transform = (\<lambda>cols df.
          Inr (\<lparr>index = index df, columns = columns df, vals = toy_encode (vals df)\<rparr>, ())),
      ohe_transform = (\<lambda>ohe df. Inr (toy_encode (vals df))),
      reducer_fit_transform = (\<lambda>r X. Inr (map (take (n_components r)) X, n_components r)),
      reducer_transform = (\<lambda>n X. Inr (map (take n) X)),
      imputer_fit_transform = (\<lambda>k X.
          Inr (map (map (\<lambda>x. case x of None \<Rightarrow> Some (1 / 2) | Some q \<Rightarrow> Some q)) X)),
      knn_fit = (\<lambda>k X labels. if labels = [] then Inl ValueError else Inr (X, labels)),
      knn_predict = (\<lambda>knn Q. Inr (map (\<lambda>_. hd (snd knn)) Q)),
      knn_predict_proba = (\<lambda>knn Q.
          Inr (map (\<lambda>_. map (\<lambda>c. if c = str_cell (hd (snd knn)) then Some 1 else Some 0)
                             (toy_classes (snd knn))) Q)),
      knn_classes = (\<lambda>knn. toy_classes (snd knn)),
      snps_parse = (\<lambda>content.
          if content = ''rs1 AG; rs7 TT''
          then Inr [(''rs1'', \<lparr>chrom = ''1'', pos = 100, genotype = Some ''AG''\<rparr>),
                    (''rs7'', \<lparr>chrom = ''2'', pos = 200, genotype = Some ''TT''\<rparr>)]
          else Inl (LibraryError ''no SNPs loaded'')),
      vcf_open = (\<lambda>fname.
          Inr \<lparr>samples = [''HG1'', ''HG2''],
               variants = [\<lparr>ID = ''rs1'', gt_bases = [''A|G'', ''G|G'']\<rparr>,
                           \<lparr>ID = ''rs2'', gt_bases = [''C|C'', ''C|T'']\<rparr>]\<rparr>),
      read_csv = (\<lambda>fname.
          Inr \<lparr>index = [''0'', ''1''],
               columns = [''sample'', ''pop'', ''super_pop'', ''gender'',
                          ''Unnamed: 4'', ''Unnamed: 5''],
               vals = [[Some ''HG1'', Some ''GBR'', Some ''EUR'', Some ''male'', None, None],
                       [Some ''HG2'', Some ''YRI'', Some ''AFR'', Some ''female'', None, None]]\<rparr>),
      read_text = (\<lambda>fname. Inr fname)\<rparr>"

definition toy_inputs :: "string option \<Rightarrow> inputs" where
  "toy_inputs upload =
     \<lparr>aisnp_set = ''Kidd et al. 55 AISNPs'', dimensionality_reduction_method = ''PCA'',
      population_level = ''super population'', user_file = upload,
      show_user_gts = False, show_1kg = False\<rparr>"

definition toy_dfsamples :: "cell frame" where
  "toy_dfsamples =
     \<lparr>index = [''HG1'', ''HG2''],
      columns = [''population'', ''super population'', ''gender''],
      vals = [[Some ''GBR'', Some ''EUR'', Some ''male''],
              [Some ''YRI'', Some ''AFR'', Some ''female'']]\<rparr>"

definition toy_aisnps_1kg :: "cell frame" where
  "toy_aisnps_1kg =
     \<lparr>index = [''HG1'', ''HG2''],
      columns = [''rs1'', ''rs2'', ''population'', ''super population'', ''gender''],
      vals = [[Some ''AG'', Some ''CC'', Some ''GBR'', Some ''EUR'', Some ''male''],
              [Some ''GG'', Some ''CT'', Some ''YRI'', Some ''AFR'', Some ''female'']]\<rparr>"

section \<open>Dimensionality reduction\<close>

lemma DataFrame_Inr:
  "DataFrame X cols idx = Inr df \<Longrightarrow>
     index df = idx \<and> columns df = cols \<and> vals df = X \<and> length X = length idx \<and>
     list_all (\<lambda>row. length row = length cols) X"
  by (auto simp: DataFrame_def split: if_splits)

text \<open>
  Claim C6. For every algorithm name other than PCA, UMAP and t-SNE,
  \<open>dimensionality_reduction\<close> raises nothing and returns the pair (None, None): no
  reduced table and no reducer, whatever the library and the input table are.
\<close>

theorem dimensionality_reduction_unknown_algorithm:
  assumes "algorithm \<notin> {''PCA'', ''UMAP'', ''t-SNE''}"
  shows "dimensionality_reduction L X algorithm = Inr (None, None)"
  using assms by (simp add: dimensionality_reduction_def)

theorem dimensionality_reduction_unknown_algorithm_witness:
  "''LDA'' \<notin> {''PCA'', ''UMAP'', ''t-SNE''} \<and>
   dimensionality_reduction toy_lib
     \<lparr>index = [''HG1''], columns = [''rs1_1''], vals = [[Some 1]]\<rparr> ''LDA''
     = Inr (None, None)"
  using dimensionality_reduction_unknown_algorithm
    [of "''LDA''" toy_lib "\<lparr>index = [''HG1''], columns = [''rs1_1''], vals = [[Some 1]]\<rparr>"]
  by simp

text \<open>
  Claim C3. For each of the three algorithms, for every encoded input table and every
  behaviour of the library, whatever \<open>dimensionality_reduction\<close> returns is a table with
  exactly the three columns x, y, z, every row of which has three cells, on the index of
  the input; a library result of another shape is rejected with \<open>ValueError\<close> by the
  table constructor and never returned. And when the reducers of the library give one
  row per input row and as many columns as their \<open>n_components\<close>, the function does
  return such a table together with the fitted reducer.
\<close>

theorem dimensionality_reduction_three_columns:
  assumes "algorithm \<in> {''PCA'', ''UMAP'', ''t-SNE''}"
  shows "(\<forall>X_reduced reducer.
            dimensionality_reduction L X algorithm = Inr (X_reduced, reducer) \<longrightarrow>
            (\<exists>df fitted. X_reduced = Some df \<and> reducer = Some fitted \<and>
               columns df = [''x'', ''y'', ''z''] \<and> length (columns df) = 3 \<and>
               list_all (\<lambda>row. length row = 3) (vals df) \<and>
               index df = index X \<and> length (vals df) = length (index X))) \<and>
         ((\<forall>r. n_components r = 3 \<longrightarrow>
              (\<exists>M fitted. reducer_fit_transform L r (vals X) = Inr (M, fitted) \<and>
                 length M = length (index X) \<and>
                 list_all (\<lambda>row. length row = n_components r) M)) \<longrightarrow>
          (\<exists>df fitted. dimensionality_reduction L X algorithm = Inr (Some df, Some fitted)))"
proof (intro conjI allI impI)
  fix X_reduced reducer
  assume "dimensionality_reduction L X algorithm = Inr (X_reduced, reducer)"
  with assms show "\<exists>df fitted. X_reduced = Some df \<and> reducer = Some fitted \<and>
               columns df = [''x'', ''y'', ''z''] \<and> length (columns df) = 3 \<and>
               list_all (\<lambda>row. length row = 3) (vals df) \<and>
               index df = index X \<and> length (vals df) = length (index X)"
    by (auto simp: dimensionality_reduction_def numeral_3_eq_3
             split: sum.splits prod.splits dest!: DataFrame_Inr)
next
  assume contract: "\<forall>r. n_components r = 3 \<longrightarrow>
              (\<exists>M fitted. reducer_fit_transform L r (vals X) = Inr (M, fitted) \<and>
                 length M = length (index X) \<and>
                 list_all (\<lambda>row. length row = n_components r) M)"
  have ok: "\<exists>df fitted.
      (case reducer_fit_transform L r (vals X) of
         Inl e \<Rightarrow> Inl e
       | Inr (X_reduced, fitted) \<Rightarrow>
           (case DataFrame X_reduced [''x'', ''y'', ''z''] (index X) of
              Inl e \<Rightarrow> Inl e
            | Inr df \<Rightarrow> Inr (Some df, Some fitted))) = Inr (Some df, Some fitted)"
    if "n_components r = 3" for r
  proof -
    from contract that obtain M fitted where
      "reducer_fit_transform L r (vals X) = Inr (M, fitted)" "length M = length (index X)"
      "list_all (\<lambda>row. length row = 3) M" by auto
    then show ?thesis by (simp add: DataFrame_def numeral_3_eq_3)
  qed
  from assms consider "algorithm = ''PCA''" | "algorithm = ''UMAP''" | "algorithm = ''t-SNE''"
    by auto
  then show "\<exists>df fitted. dimensionality_reduction L X algorithm = Inr (Some df, Some fitted)"
  proof cases
    case 1
    then show ?thesis using ok[of "PCA 3"] by (simp add: dimensionality_reduction_def)
  next
    case 2
    then show ?thesis using ok[of "UMAP 3 (2 / 10) ''dice'' 42"]
      by (simp add: dimensionality_reduction_def)
  next
    case 3
    then show ?thesis using ok[of "TSNE 3 4"] by (simp add: dimensionality_reduction_def)
  qed
qed


lemma toy_reduction:
  "dimensionality_reduction toy_lib
      \<lparr>index = [''HG1''], columns = [''a'', ''b'', ''c'', ''d''],
       vals = [[Some 1, Some 0, Some 1, Some 0]]\<rparr> ''UMAP''
     = Inr (Some \<lparr>index = [''HG1''], columns = [''x'', ''y'', ''z''],
                  vals = [[Some 1, Some 0, Some 1]]\<rparr>, Some 3)"
  by (simp add: dimensionality_reduction_def toy_lib_def DataFrame_def)

theorem dimensionality_reduction_three_columns_witness:
  "''UMAP'' \<in> {''PCA'', ''UMAP'', ''t-SNE''} \<and>
   dimensionality_reduction toy_lib
      \<lparr>index = [''HG1''], columns = [''a'', ''b'', ''c'', ''d''],
       vals = [[Some 1, Some 0, Some 1, Some 0]]\<rparr> ''UMAP''
     = Inr (Some \<lparr>index = [''HG1''], columns = [''x'', ''y'', ''z''],
                  vals = [[Some 1, Some 0, Some 1]]\<rparr>, Some 3) \<and>
   length (columns \<lparr>index = [''HG1''], columns = [''x'', ''y'', ''z''],
                    vals = [[Some (1::rat), Some 0, Some 1]]\<rparr>) = 3"
  using dimensionality_reduction_three_columns
    [of "''UMAP''" toy_lib
        "\<lparr>index = [''HG1''], columns = [''a'', ''b'', ''c'', ''d''],
          vals = [[Some 1, Some 0, Some 1, Some 0]]\<rparr>"]
    toy_reduction
  by simp

section \<open>Imputation of the user row\<close>

lemma rint_nearest:
  "\<exists>z::int. rint (Some q) = Some (of_int z) \<and> \<bar>of_int z - q\<bar> \<le> 1 / 2 \<and>
            (\<bar>of_int z - q\<bar> = 1 / 2 \<longrightarrow> even z)"
proof -
  define f where "f = \<lfloor>q\<rfloor>"
  define d where "d = q - of_int f"
  have d0: "0 \<le> d" and d1: "d < 1" unfolding d_def f_def by linarith+
  consider (lo) "d < 1 / 2" | (hi) "1 / 2 < d" | (tie) "d = 1 / 2" by linarith
  then show ?thesis
  proof cases
    case lo
    then have "rint (Some q) = Some (of_int f)" by (simp add: rint_def f_def d_def Let_def)
    moreover have "\<bar>of_int f - q\<bar> < 1 / 2" using lo d0 unfolding d_def by linarith
    ultimately show ?thesis by (intro exI[of _ f]) simp
  next
    case hi
    then have "rint (Some q) = Some (of_int (f + 1))"
      by (simp add: rint_def f_def d_def Let_def)
    moreover have "\<bar>of_int (f + 1) - q\<bar> < 1 / 2" using hi d1 unfolding d_def by simp
    ultimately show ?thesis by (intro exI[of _ "f + 1"]) simp
  next
    case tie
    then have "rint (Some q) = Some (of_int (if even f then f else f + 1))"
      by (simp add: rint_def f_def d_def Let_def)
    moreover have "\<bar>of_int (if even f then f else f + 1) - q\<bar> \<le> 1 / 2"
      using tie unfolding d_def by (simp split: if_splits)
    moreover have "even (if even f then f else f + 1)" by simp
    ultimately show ?thesis by blast
  qed
qed

text \<open>
  Claim C10. When the imputer returns a matrix with at least one row, \<open>impute_missing\<close>
  returns its last row only (the row of the user, who was stacked last), every cell
  rounded to a nearest integer, a half going to the even neighbour, NaN staying NaN; the
  rows above the last one do not enter the result.
\<close>

theorem impute_missing_last_row_rounded:
  assumes "imputer_fit_transform L 9 X = Inr imputed" and "imputed \<noteq> []"
  shows "\<exists>user_row. impute_missing L X = Inr user_row \<and>
           user_row = map rint (last imputed) \<and>
           length user_row = length (last imputed) \<and>
           (\<forall>i < length user_row.
              (last imputed ! i = None \<and> user_row ! i = None) \<or>
              (\<exists>q z. last imputed ! i = Some q \<and> user_row ! i = Some (of_int z) \<and>
                     \<bar>of_int z - q\<bar> \<le> 1 / 2 \<and> (\<bar>of_int z - q\<bar> = 1 / 2 \<longrightarrow> even z)))"
proof -
  have run: "impute_missing L X = Inr (map rint (last imputed))"
    using assms by (simp add: impute_missing_def)
  have cellwise: "(x = None \<and> rint x = None) \<or>
       (\<exists>q z. x = Some q \<and> rint x = Some (of_int z) \<and>
              \<bar>of_int z - q\<bar> \<le> 1 / 2 \<and> (\<bar>of_int z - q\<bar> = 1 / 2 \<longrightarrow> even z))" for x
  proof (cases x)
    case None
    then show ?thesis by (simp add: rint_def)
  next
    case (Some q)
    then show ?thesis using rint_nearest[of q] by auto
  qed
  show ?thesis using run cellwise by simp
qed

lemma impute_missing_empty:
  "imputer_fit_transform L 9 X = Inr [] \<Longrightarrow> impute_missing L X = Inl IndexError"
  by (simp add: impute_missing_def)

theorem impute_missing_last_row_rounded_witness:
  "imputer_fit_transform toy_lib 9 [[Some 1, Some 0], [None, Some (3 / 2)]]
      = Inr [[Some 1, Some 0], [Some (1 / 2), Some (3 / 2)]] \<and>
   [[Some 1, Some 0], [Some (1 / 2), Some (3 / 2 :: rat)]] \<noteq> [] \<and>
   impute_missing toy_lib [[Some 1, Some 0], [None, Some (3 / 2)]] = Inr [Some 0, Some 2]"
proof -
  have a: "imputer_fit_transform toy_lib 9 [[Some 1, Some 0], [None, Some (3 / 2)]]
      = Inr [[Some 1, Some 0], [Some (1 / 2), Some (3 / 2)]]"
    by (simp add: toy_lib_def)
  have b: "[[Some 1, Some 0], [Some (1 / 2), Some (3 / 2 :: rat)]] \<noteq> []" by simp
  have c: "rint (Some (1 / 2)) = Some 0" "rint (Some (3 / 2)) = Some 2"
    by code_simp+
  from impute_missing_last_row_rounded [OF a b] a c show ?thesis by simp
qed

section \<open>Filtering the upload to the panel\<close>

lemma filter_key_distinct:
  "distinct (map fst xs) \<Longrightarrow>
     filter (\<lambda>kr. fst kr = k) xs = (case map_of xs k of None \<Rightarrow> [] | Some v \<Rightarrow> [(k, v)])"
proof (induction xs)
  case Nil
  then show ?case by simp
next
  case (Cons a xs)
  obtain k' v' where a: "a = (k', v')" by (cases a)
  show ?case
  proof (cases "k' = k")
    case True
    then have "k \<notin> fst ` set xs" using Cons.prems a by auto
    then have "map_of xs k = None" by (simp add: map_of_eq_None_iff)
    then show ?thesis using Cons a True by simp
  next
    case False
    then show ?thesis using Cons a by simp
  qed
qed

lemma map2_twice:
  "map2 f xs (map2 g xs ys) = map2 (\<lambda>c x. f c (g c x)) xs ys"
proof (induction xs arbitrary: ys)
  case Nil
  then show ?case by simp
next
  case (Cons x xs)
  then show ?case by (cases ys) simp_all
qed

lemma map2_cong_left:
  "(\<And>c x. c \<in> set xs \<Longrightarrow> f c x = g c x) \<Longrightarrow> map2 f xs ys = map2 g xs ys"
  by (auto dest: set_zip_leftD)

lemma map2_replicate:
  "map2 (\<lambda>c x. f c x) xs (replicate (length xs) v) = map (\<lambda>c. f c v) xs"
  by (induction xs) simp_all

lemma map2_snd: "length ys = length xs \<Longrightarrow> map2 (\<lambda>c x. x) xs ys = ys"
  by (induction xs ys rule: list_induct2') simp_all

lemma filter_user_genotypes_loop_closed:
  assumes "distinct (map fst userdf)" and "set snps \<subseteq> set cols"
    and "length row = length cols"
  shows "filter_user_genotypes_loop userdf \<lparr>index = idx, columns = cols, vals = [row]\<rparr> snps
         = Inr \<lparr>index = idx, columns = cols,
                vals = [map2 (\<lambda>c x. case map_of userdf c of
                                      None \<Rightarrow> x
                                    | Some r \<Rightarrow> if c \<in> set snps then genotype r else x)
                             cols row]\<rparr>"
  using assms(2,3)
proof (induction snps arbitrary: row)
  case Nil
  have "map2 (\<lambda>c x. case map_of userdf c of None \<Rightarrow> x
                    | Some r \<Rightarrow> if c \<in> set [] then genotype r else x) cols row
        = map2 (\<lambda>c x. x) cols row"
    by (rule map2_cong_left) (simp split: option.splits)
  also have "\<dots> = row" using Nil.prems(2) by (rule map2_snd)
  finally have unchanged:
    "map2 (\<lambda>c x. case map_of userdf c of None \<Rightarrow> x
                    | Some r \<Rightarrow> if c \<in> set [] then genotype r else x) cols row = row" .
  show ?case by (simp only: filter_user_genotypes_loop.simps unchanged)
next
  case (Cons snp snps)
  then have sub: "set snps \<subseteq> set cols" and mem: "snp \<in> set cols" by auto
  show ?case
  proof (cases "map_of userdf snp")
    case None
    have "filter_user_genotypes_loop userdf \<lparr>index = idx, columns = cols, vals = [row]\<rparr> (snp # snps)
          = filter_user_genotypes_loop userdf \<lparr>index = idx, columns = cols, vals = [row]\<rparr> snps"
      using None by (simp add: filter_key_distinct[OF assms(1)])
    moreover have "map2 (\<lambda>c x. case map_of userdf c of None \<Rightarrow> x
                        | Some r \<Rightarrow> if c \<in> set snps then genotype r else x) cols row
        = map2 (\<lambda>c x. case map_of userdf c of None \<Rightarrow> x
                        | Some r \<Rightarrow> if c \<in> set (snp # snps) then genotype r else x) cols row"
      by (rule map2_cong_left) (use None in \<open>auto split: option.splits\<close>)
    ultimately show ?thesis using Cons.IH[OF sub Cons.prems(2)] by simp
  next
    case (Some r)
    let ?row' = "map2 (\<lambda>c x. if c = snp then genotype r else x) cols row"
    have "filter_user_genotypes_loop userdf \<lparr>index = idx, columns = cols, vals = [row]\<rparr> (snp # snps)
          = filter_user_genotypes_loop userdf \<lparr>index = idx, columns = cols, vals = [?row']\<rparr> snps"
      using Some mem by (simp add: filter_key_distinct[OF assms(1)] setitem_scalar_def)
    moreover have "map2 (\<lambda>c x. case map_of userdf c of None \<Rightarrow> x
                        | Some r \<Rightarrow> if c \<in> set snps then genotype r else x) cols ?row'
        = map2 (\<lambda>c x. case map_of userdf c of None \<Rightarrow> x
                        | Some r \<Rightarrow> if c \<in> set (snp # snps) then genotype r else x) cols row"
      unfolding map2_twice
      by (rule map2_cong_left) (use Some in \<open>auto split: option.splits\<close>)
    moreover have "length ?row' = length cols" using Cons.prems(2) by simp
    ultimately show ?thesis using Cons.IH[OF sub, of ?row'] by simp
  qed
qed


text \<open>
  Claim C8. For an upload with one row per rsid (the parser removes duplicates), the user
  record has one row labelled your_sample and exactly the columns of the reference table,
  in their order; a column whose label is an rsid of the upload carries the uploaded
  genotype, any other column is null, so no column is dropped and no rsid outside the
  panel appears. The same row is appended to the reference table.
\<close>

theorem filter_user_genotypes_intersects_panel:
  assumes "distinct (map fst userdf)"
  shows "filter_user_genotypes userdf aisnps_1kg =
           Inr (\<lparr>index = [''your_sample''], columns = columns aisnps_1kg,
                 vals = [map (\<lambda>snp. case map_of userdf snp of
                                        None \<Rightarrow> None
                                      | Some r \<Rightarrow> genotype r) (columns aisnps_1kg)]\<rparr>,
                aisnps_1kg\<lparr>index := index aisnps_1kg @ [''your_sample''],
                           vals := vals aisnps_1kg @
                             [map (\<lambda>snp. case map_of userdf snp of
                                            None \<Rightarrow> None
                                          | Some r \<Rightarrow> genotype r) (columns aisnps_1kg)]\<rparr>)"
proof -
  let ?cols = "columns aisnps_1kg"
  have "map2 (\<lambda>c x. case map_of userdf c of None \<Rightarrow> x
                    | Some r \<Rightarrow> if c \<in> set ?cols then genotype r else x)
             ?cols (replicate (length ?cols) None)
        = map (\<lambda>c. case map_of userdf c of None \<Rightarrow> None
                    | Some r \<Rightarrow> if c \<in> set ?cols then genotype r else None) ?cols"
    by (rule map2_replicate)
  also have "\<dots> = map (\<lambda>snp. case map_of userdf snp of None \<Rightarrow> None
                                | Some r \<Rightarrow> genotype r) ?cols"
    by (rule map_cong) (auto split: option.splits)
  finally show ?thesis
    using filter_user_genotypes_loop_closed[OF assms, of ?cols ?cols
        "replicate (length ?cols) None" "[''your_sample'']"]
    by (simp add: filter_user_genotypes_def Let_def)
qed

theorem filter_user_genotypes_intersects_panel_witness:
  "distinct (map fst [(''rs1'', \<lparr>chrom = ''1'', pos = 100, genotype = Some ''AG''\<rparr>),
                      (''rs7'', \<lparr>chrom = ''2'', pos = 200, genotype = Some ''TT''\<rparr>)]) \<and>
   filter_user_genotypes
     [(''rs1'', \<lparr>chrom = ''1'', pos = 100, genotype = Some ''AG''\<rparr>),
      (''rs7'', \<lparr>chrom = ''2'', pos = 200, genotype = Some ''TT''\<rparr>)] toy_aisnps_1kg
   = Inr (\<lparr>index = [''your_sample''],
            columns = [''rs1'', ''rs2'', ''population'', ''super population'', ''gender''],
            vals = [[Some ''AG'', None, None, None, None]]\<rparr>,
          \<lparr>index = [''HG1'', ''HG2'', ''your_sample''],
            columns = [''rs1'', ''rs2'', ''population'', ''super population'', ''gender''],
            vals = [[Some ''AG'', Some ''CC'', Some ''GBR'', Some ''EUR'', Some ''male''],
                    [Some ''GG'', Some ''CT'', Some ''YRI'', Some ''AFR'', Some ''female''],
                    [Some ''AG'', None, None, None, None]]\<rparr>)"
  using filter_user_genotypes_intersects_panel
    [of "[(''rs1'', \<lparr>chrom = ''1'', pos = 100, genotype = Some ''AG''\<rparr>),
          (''rs7'', \<lparr>chrom = ''2'', pos = 200, genotype = Some ''TT''\<rparr>)]" toy_aisnps_1kg]
  by (simp add: toy_aisnps_1kg_def)

section \<open>The genotype loader\<close>

lemma setitem_shape:
  assumes "length values = length (index df)" and "length (vals df) = length (index df)"
    and "distinct (columns df)"
  shows "\<exists>df'. setitem df label values = Inr df' \<and> index df' = index df \<and>
           length (vals df') = length (index df) \<and> distinct (columns df') \<and>
           set (columns df') = insert label (set (columns df))"
  using assms by (auto simp: setitem_def)

lemma vcf2df_loop_shape:
  assumes "list_all (\<lambda>v. length (gt_bases v) = length (index df)) vs"
    and "length (vals df) = length (index df)" and "distinct (columns df)"
  shows "\<exists>df'. vcf2df_loop df vs = Inr df' \<and> index df' = index df \<and>
           length (vals df') = length (index df) \<and> distinct (columns df') \<and>
           set (columns df') = set (columns df) \<union> ID ` set vs"
  using assms
proof (induction vs arbitrary: df)
  case Nil
  then show ?case by simp
next
  case (Cons v vs)
  let ?gts = "map (\<lambda>gt. Some (filter (\<lambda>c. c \<noteq> CHR ''|'') gt)) (gt_bases v)"
  have "length ?gts = length (index df)" using Cons.prems(1) by simp
  from setitem_shape[OF this Cons.prems(2,3), of "ID v"]
  obtain df1 where s: "setitem df (ID v) ?gts = Inr df1" "index df1 = index df"
    "length (vals df1) = length (index df)" "distinct (columns df1)"
    "set (columns df1) = insert (ID v) (set (columns df))" by blast
  have "list_all (\<lambda>v. length (gt_bases v) = length (index df1)) vs"
    using Cons.prems(1) s(2) by simp
  from Cons.IH[OF this] s obtain df' where
    "vcf2df_loop df1 vs = Inr df'" "index df' = index df1"
    "length (vals df') = length (index df1)" "distinct (columns df')"
    "set (columns df') = set (columns df1) \<union> ID ` set vs" by auto
  then show ?case using s by auto
qed

lemma rows_at_distinct:
  assumes "distinct (index df)" and "length (vals df) = length (index df)"
  shows "length (rows_at df k) = (if k \<in> set (index df) then 1 else 0)"
proof -
  have "length (rows_at df k) = length (filter (\<lambda>l. l = k) (map fst (zip (index df) (vals df))))"
    by (simp add: rows_at_def filter_map comp_def)
  also have "\<dots> = length (filter (\<lambda>l. l = k) (index df))" using assms(2) by simp
  also have "\<dots> = card ({l. l = k} \<inter> set (index df))"
    using assms(1) by (rule distinct_length_filter)
  also have "\<dots> = (if k \<in> set (index df) then 1 else 0)"
  proof (cases "k \<in> set (index df)")
    case True
    then have "{l. l = k} \<inter> set (index df) = {k}" by auto
    then show ?thesis using True by simp
  next
    case False
    then have "{l. l = k} \<inter> set (index df) = {}" by auto
    then show ?thesis using False by simp
  qed
  finally show ?thesis .
qed

lemma length_concat_singletons:
  "(\<And>x. x \<in> set xs \<Longrightarrow> length (f x) = 1) \<Longrightarrow> length (concat (map f xs)) = length xs"
  by (induction xs) simp_all

lemma join_outer_shape:
  assumes "distinct (index df)" and "length (vals df) = length (index df)"
    and "distinct (index other)" and "length (vals other) = length (index other)"
    and "set (columns df) \<inter> set (columns other) = {}"
  shows "\<exists>j. join_outer df other = Inr j \<and>
           length (index j) = card (set (index df) \<union> set (index other)) \<and>
           length (vals j) = length (index j) \<and>
           columns j = columns df @ columns other"
proof -
  let ?keys = "sort (remdups (index df @ index other))"
  let ?nl = "replicate (length (columns df)) None"
  let ?nr = "replicate (length (columns other)) None"
  let ?block = "\<lambda>k. let ls = rows_at df k; rs = rows_at other k in
                       if ls = [] then map (\<lambda>r. (k, ?nl @ r)) rs
                       else if rs = [] then map (\<lambda>l. (k, l @ ?nr)) ls
                       else concat (map (\<lambda>l. map (\<lambda>r. (k, l @ r)) rs) ls)"
  have one: "length (?block k) = 1" if "k \<in> set ?keys" for k
  proof -
    from that have k: "k \<in> set (index df) \<or> k \<in> set (index other)" by simp
    have l: "length (rows_at df k) = (if k \<in> set (index df) then 1 else 0)"
      by (rule rows_at_distinct[OF assms(1,2)])
    have r: "length (rows_at other k) = (if k \<in> set (index other) then 1 else 0)"
      by (rule rows_at_distinct[OF assms(3,4)])
    show ?thesis
    proof (cases "k \<in> set (index df)")
      case True
      then obtain a where a: "rows_at df k = [a]" using l by (cases "rows_at df k") auto
      show ?thesis
      proof (cases "k \<in> set (index other)")
        case True
        then obtain b where "rows_at other k = [b]" using r by (cases "rows_at other k") auto
        then show ?thesis using a by (simp add: Let_def)
      next
        case False
        then have "rows_at other k = []" using r by simp
        then show ?thesis using a by (simp add: Let_def)
      qed
    next
      case False
      then have e: "rows_at df k = []" using l by simp
      from False k have "k \<in> set (index other)" by simp
      then obtain b where "rows_at other k = [b]" using r by (cases "rows_at other k") auto
      then show ?thesis using e by (simp add: Let_def)
    qed
  qed
  have len: "length (concat (map ?block ?keys)) = length ?keys"
    by (rule length_concat_singletons) (rule one)
  have "length ?keys = card (set (index df) \<union> set (index other))"
    by (simp add: length_remdups_card_conv)
  with len show ?thesis using assms(5) by (simp add: join_outer_def Let_def)
qed


text \<open>
  Claim C4, as amended. For a variant file with distinct sample names and one genotype per
  sample in every variant, and a metadata table with distinct sample ids none of whose
  column labels is a variant ID, the genotype loader returns a table with one row per
  sample id that occurs in the variant file or in the metadata table, and one column per
  distinct variant ID plus the columns of the metadata table. So the row count is the
  number of samples of the variant file when every metadata sample is in that file, and
  the column count is the number of variants plus the number of metadata columns when the
  variant IDs are distinct.
\<close>

theorem vcf2df_shape:
  assumes "vcf_open L vcf_fname = Inr vcf_file"
    and "distinct (samples vcf_file)"
    and "list_all (\<lambda>v. length (gt_bases v) = length (samples vcf_file)) (variants vcf_file)"
    and "distinct (index dfsamples)"
    and "length (vals dfsamples) = length (index dfsamples)"
    and "ID ` set (variants vcf_file) \<inter> set (columns dfsamples) = {}"
  shows "\<exists>df. vcf2df L vcf_fname dfsamples = Inr df \<and>
           length (index df) = card (set (samples vcf_file) \<union> set (index dfsamples)) \<and>
           length (vals df) = length (index df) \<and>
           length (columns df) =
             card (ID ` set (variants vcf_file)) + length (columns dfsamples) \<and>
           (set (index dfsamples) \<subseteq> set (samples vcf_file) \<longrightarrow>
              length (index df) = length (samples vcf_file)) \<and>
           (distinct (map ID (variants vcf_file)) \<longrightarrow>
              length (columns df) = length (variants vcf_file) + length (columns dfsamples))"
proof -
  let ?df0 = "\<lparr>index = samples vcf_file, columns = [],
               vals = map (\<lambda>_. []) (samples vcf_file)\<rparr> :: cell frame"
  have "\<exists>df'. vcf2df_loop ?df0 (variants vcf_file) = Inr df' \<and> index df' = index ?df0 \<and>
           length (vals df') = length (index ?df0) \<and> distinct (columns df') \<and>
           set (columns df') = set (columns ?df0) \<union> ID ` set (variants vcf_file)"
    by (rule vcf2df_loop_shape) (use assms(3) in simp_all)
  then obtain df' where loop: "vcf2df_loop ?df0 (variants vcf_file) = Inr df'"
    and idx: "index df' = samples vcf_file"
    and len: "length (vals df') = length (samples vcf_file)"
    and dist: "distinct (columns df')"
    and cols: "set (columns df') = ID ` set (variants vcf_file)" by auto
  have "\<exists>j. join_outer df' dfsamples = Inr j \<and>
           length (index j) = card (set (index df') \<union> set (index dfsamples)) \<and>
           length (vals j) = length (index j) \<and>
           columns j = columns df' @ columns dfsamples"
    by (rule join_outer_shape) (use assms idx len cols in simp_all)
  then obtain j where j: "join_outer df' dfsamples = Inr j"
    "length (index j) = card (set (samples vcf_file) \<union> set (index dfsamples))"
    "length (vals j) = length (index j)"
    "columns j = columns df' @ columns dfsamples" using idx by auto
  have run: "vcf2df L vcf_fname dfsamples = Inr j"
    using assms(1) loop j(1) by (simp add: vcf2df_def Let_def)
  have ncols: "length (columns df') = card (ID ` set (variants vcf_file))"
    using dist cols distinct_card by fastforce
  have rows_eq: "length (index j) = length (samples vcf_file)"
    if "set (index dfsamples) \<subseteq> set (samples vcf_file)"
  proof -
    from that have "set (samples vcf_file) \<union> set (index dfsamples) = set (samples vcf_file)"
      by auto
    then show ?thesis using j(2) assms(2) by (simp add: distinct_card)
  qed
  have cols_eq: "length (columns j) = length (variants vcf_file) + length (columns dfsamples)"
    if "distinct (map ID (variants vcf_file))"
  proof -
    have "card (ID ` set (variants vcf_file)) = length (map ID (variants vcf_file))"
      using distinct_card[OF that] by simp
    then show ?thesis using j(4) ncols by simp
  qed
  show ?thesis using run j ncols rows_eq cols_eq by simp
qed

text \<open>
  Claim C4 as stated fails: the outer join with the metadata adds the metadata columns
  and the samples that only the metadata table has. Two samples and two variants in the
  file, three samples in the metadata: the table has three rows and five columns.
\<close>

theorem vcf2df_counts_counterexample:
  "vcf_open toy_lib ''data/Kidd.55AISNP.1kG.vcf''
     = Inr \<lparr>samples = [''HG1'', ''HG2''],
            variants = [\<lparr>ID = ''rs1'', gt_bases = [''A|G'', ''G|G'']\<rparr>,
                        \<lparr>ID = ''rs2'', gt_bases = [''C|C'', ''C|T'']\<rparr>]\<rparr> \<and>
   vcf2df toy_lib ''data/Kidd.55AISNP.1kG.vcf''
     \<lparr>index = [''HG1'', ''HG2'', ''HG3''],
      columns = [''population'', ''super population'', ''gender''],
      vals = [[Some ''GBR'', Some ''EUR'', Some ''male''],
              [Some ''YRI'', Some ''AFR'', Some ''female''],
              [Some ''CHB'', Some ''EAS'', Some ''female'']]\<rparr>
     = Inr \<lparr>index = [''HG1'', ''HG2'', ''HG3''],
            columns = [''rs1'', ''rs2'', ''population'', ''super population'', ''gender''],
            vals = [[Some ''AG'', Some ''CC'', Some ''GBR'', Some ''EUR'', Some ''male''],
                    [Some ''GG'', Some ''CT'', Some ''YRI'', Some ''AFR'', Some ''female''],
                    [None, None, Some ''CHB'', Some ''EAS'', Some ''female'']]\<rparr> \<and>
   length [''HG1'', ''HG2'', ''HG3''] \<noteq> length [''HG1'', ''HG2''] \<and>
   length [''rs1'', ''rs2'', ''population'', ''super population'', ''gender'']
     \<noteq> length [\<lparr>ID = ''rs1'', gt_bases = [''A|G'', ''G|G'']\<rparr>,
                 \<lparr>ID = ''rs2'', gt_bases = [''C|C'', ''C|T'']\<rparr>]"
  by code_simp

theorem vcf2df_shape_witness:
  "vcf_open toy_lib ''data/Kidd.55AISNP.1kG.vcf''
     = Inr \<lparr>samples = [''HG1'', ''HG2''],
            variants = [\<lparr>ID = ''rs1'', gt_bases = [''A|G'', ''G|G'']\<rparr>,
                        \<lparr>ID = ''rs2'', gt_bases = [''C|C'', ''C|T'']\<rparr>]\<rparr> \<and>
   vcf2df toy_lib ''data/Kidd.55AISNP.1kG.vcf'' toy_dfsamples = Inr toy_aisnps_1kg \<and>
   length (index toy_aisnps_1kg) = 2 \<and> length (columns toy_aisnps_1kg) = 2 + 3"
proof -
  let ?V = "\<lparr>samples = [''HG1'', ''HG2''],
            variants = [\<lparr>ID = ''rs1'', gt_bases = [''A|G'', ''G|G'']\<rparr>,
                        \<lparr>ID = ''rs2'', gt_bases = [''C|C'', ''C|T'']\<rparr>]\<rparr>"
  have a: "vcf_open toy_lib ''data/Kidd.55AISNP.1kG.vcf'' = Inr ?V" by (simp add: toy_lib_def)
  have b: "distinct (samples ?V)" by simp
  have c: "list_all (\<lambda>v. length (gt_bases v) = length (samples ?V)) (variants ?V)" by simp
  have d: "distinct (index toy_dfsamples)" by (simp add: toy_dfsamples_def)
  have e: "length (vals toy_dfsamples) = length (index toy_dfsamples)"
    by (simp add: toy_dfsamples_def)
  have f: "ID ` set (variants ?V) \<inter> set (columns toy_dfsamples) = {}"
    by (simp add: toy_dfsamples_def)
  have run: "vcf2df toy_lib ''data/Kidd.55AISNP.1kG.vcf'' toy_dfsamples = Inr toy_aisnps_1kg"
    by code_simp
  from vcf2df_shape[OF a b c d e f] run a show ?thesis
    by (simp add: toy_aisnps_1kg_def)
qed

section \<open>The script: uploads\<close>

lemma main_tail_Inr:
  "main_tail L inp evs st = (evs', Inr st') \<Longrightarrow> st' = st"
  by (auto simp: main_tail_def Let_def split: sum.splits)

lemma main_tail_events:
  "set evs \<subseteq> set (fst (main_tail L inp evs st))"
  by (auto simp: main_tail_def Let_def split: sum.splits)

lemma main_user_unbound:
  "main_user L inp evs None aisnps_1kg encoder X_encoded reducer X_reduced dfsamples
     = (evs, Inl UnboundLocalError)"
  by (simp add: main_user_def)

lemma main_user_Inr:
  assumes "main_user L inp evs userdf aisnps_1kg encoder X_encoded reducer X_reduced dfsamples
             = (evs', Inr st)"
  shows "\<exists>userdf' user_record aisnps_1kg' user_encoded X_encoded' user_imputed fitted
            user_reduced labels Xr knn user_pop rest user_pop_probs.
           userdf = Some userdf' \<and>
           filter_user_genotypes userdf' aisnps_1kg = Inr (user_record, aisnps_1kg') \<and>
           ohe_transform L encoder user_record = Inr user_encoded \<and>
           concatenate (vals X_encoded) user_encoded = Inr X_encoded' \<and>
           impute_missing L X_encoded' = Inr user_imputed \<and>
           reducer = Some fitted \<and>
           reducer_transform L fitted [user_imputed] = Inr user_reduced \<and>
           column dfsamples (population_level inp) = Inr labels \<and>
           X_reduced = Some Xr \<and>
           knn_fit L 9 (vals Xr) labels = Inr knn \<and>
           knn_predict L knn user_reduced = Inr (user_pop # rest) \<and>
           knn_predict_proba L knn user_reduced = Inr user_pop_probs \<and>
           user_pop_probs \<noteq> [] \<and>
           length (hd user_pop_probs) = length (knn_classes L knn) \<and>
           final_X_reduced st = Some (vals Xr @ user_reduced) \<and>
           final_knn st = Some knn \<and>
           final_user_reduced st = Some user_reduced \<and>
           final_user_pop st = Some user_pop \<and>
           final_user_pop_probs st = Some user_pop_probs \<and>
           final_aisnps_1kg st = aisnps_1kg'"
  using assms unfolding main_user_def
  by (auto simp: Let_def concatenate_def split: sum.splits option.splits list.splits prod.splits if_splits
           dest!: main_tail_Inr DataFrame_Inr)


lemma main_Inr_upload:
  assumes "main L inp = (evs, Inr st)" and "user_file inp = Some uploaded"
  shows "\<exists>dfsamples aisnps_1kg X_encoded encoder X_reduced reducer userdf evs0.
           get_1kg_samples L = Inr dfsamples \<and>
           (if aisnp_set inp = ''Kidd et al. 55 AISNPs''
            then vcf2df L ''data/Kidd.55AISNP.1kG.vcf'' dfsamples
            else if aisnp_set inp = ''Seldin et al. 128 AISNPs''
            then vcf2df L ''data/Seldin.128AISNP.1kG.vcf'' dfsamples
            else Inl UnboundLocalError) = Inr aisnps_1kg \<and>
           encode_genotypes L aisnps_1kg = Inr (X_encoded, encoder) \<and>
           dimensionality_reduction L X_encoded (dimensionality_reduction_method inp)
             = Inr (X_reduced, reducer) \<and>
           snps_parse L uploaded = Inr userdf \<and>
           main_user L inp evs0 (Some userdf) aisnps_1kg encoder X_encoded reducer X_reduced
             dfsamples = (evs, Inr st)"
proof -
  have no: "main_user L inp evs0 None a enc Xe r Xr d \<noteq> (evs, Inr st)" for evs0 a enc Xe r Xr d
    by (simp add: main_user_unbound)
  show ?thesis
    using assms no unfolding main_def
    by (auto simp: Let_def split: sum.splits prod.splits split del: if_split)
qed

text \<open>
  Claim C1. The claim says that an upload whose parsing raises is treated as no upload, so
  that the reference visualization is still rendered. The script does catch the exception
  and show the message, and it assigns \<^verbatim>\<open>user_file = None\<close>; but it is already inside
  the branch of the upload, whose next statement reads \<^verbatim>\<open>userdf\<close>, which the failed
  assignment never bound. So for every library and every input, a run whose upload fails to
  parse ends with an exception and shows no chart; once the message has been shown, the
  exception is \<^verbatim>\<open>UnboundLocalError\<close>.
\<close>

theorem main_parse_error_aborts_without_plot:
  assumes "user_file inp = Some uploaded" and "snps_parse L uploaded = Inl e"
  shows "(\<exists>err. snd (main L inp) = Inl err) \<and>
         (\<forall>fig. Plotly_chart fig \<notin> set (fst (main L inp))) \<and>
         (\<forall>msg. Error_message msg \<in> set (fst (main L inp)) \<longrightarrow>
                snd (main L inp) = Inl UnboundLocalError)"
  using assms unfolding main_def
  by (auto simp: Let_def main_user_unbound split: sum.splits prod.splits split del: if_split)

theorem main_parse_error_aborts_without_plot_witness:
  "user_file (toy_inputs (Some ''not a genotype file'')) = Some ''not a genotype file'' \<and>
   snps_parse toy_lib ''not a genotype file'' = Inl (LibraryError ''no SNPs loaded'') \<and>
   main toy_lib (toy_inputs (Some ''not a genotype file''))
     = ([Markdown ''intro.md'',
         Error_message (''Sorry, there was a problem processing your genotypes file.'' @
                        [CHR 0x0A] @ '' no SNPs loaded'')],
        Inl UnboundLocalError)"
proof -
  have a: "user_file (toy_inputs (Some ''not a genotype file'')) = Some ''not a genotype file''"
    by (simp add: toy_inputs_def)
  have b: "snps_parse toy_lib ''not a genotype file'' = Inl (LibraryError ''no SNPs loaded'')"
    by (simp add: toy_lib_def)
  have run: "main toy_lib (toy_inputs (Some ''not a genotype file''))
     = ([Markdown ''intro.md'',
         Error_message (''Sorry, there was a problem processing your genotypes file.'' @
                        [CHR 0x0A] @ '' no SNPs loaded'')],
        Inl UnboundLocalError)"
    by code_simp
  from main_parse_error_aborts_without_plot[OF a b] a b run show ?thesis by simp
qed


text \<open>
  Claim C9. In every run with an upload that reaches its end, the classifier was fitted
  with nine neighbours on the reference embedding, which has one row per row of the
  encoded reference table (the user's point is not in it), and on the column of the
  sample table that the population resolution selects, read before the row of the user
  is added. The predicted label and the probabilities are the classifier's answers for
  the user's point alone, and the probability row has one entry per class of the
  classifier.
\<close>

theorem main_knn_fit_on_reference:
  assumes "main L inp = (evs, Inr st)" and "user_file inp = Some uploaded"
  shows "\<exists>dfsamples aisnps_1kg X_encoded encoder Xr fitted labels knn user_reduced
            user_pop rest user_pop_probs.
           get_1kg_samples L = Inr dfsamples \<and>
           encode_genotypes L aisnps_1kg = Inr (X_encoded, encoder) \<and>
           dimensionality_reduction L X_encoded (dimensionality_reduction_method inp)
             = Inr (Some Xr, Some fitted) \<and>
           length (vals Xr) = length (index X_encoded) \<and>
           column dfsamples (population_level inp) = Inr labels \<and>
           knn_fit L 9 (vals Xr) labels = Inr knn \<and>
           final_knn st = Some knn \<and>
           final_user_reduced st = Some user_reduced \<and>
           knn_predict L knn user_reduced = Inr (user_pop # rest) \<and>
           final_user_pop st = Some user_pop \<and>
           knn_predict_proba L knn user_reduced = Inr user_pop_probs \<and>
           final_user_pop_probs st = Some user_pop_probs \<and>
           user_pop_probs \<noteq> [] \<and>
           length (hd user_pop_probs) = length (knn_classes L knn)"
proof -
  from main_Inr_upload[OF assms] obtain dfsamples aisnps_1kg X_encoded encoder X_reduced
      reducer userdf evs0
    where ref: "get_1kg_samples L = Inr dfsamples"
      "encode_genotypes L aisnps_1kg = Inr (X_encoded, encoder)"
      "dimensionality_reduction L X_encoded (dimensionality_reduction_method inp)
         = Inr (X_reduced, reducer)"
    and user: "main_user L inp evs0 (Some userdf) aisnps_1kg encoder X_encoded reducer
                 X_reduced dfsamples = (evs, Inr st)"
    by (elim exE conjE) (rule that; assumption)
  from main_user_Inr[OF user] obtain fitted user_reduced labels Xr knn user_pop rest
      user_pop_probs
    where steps: "reducer = Some fitted" "X_reduced = Some Xr"
      "column dfsamples (population_level inp) = Inr labels"
      "knn_fit L 9 (vals Xr) labels = Inr knn"
      "knn_predict L knn user_reduced = Inr (user_pop # rest)"
      "knn_predict_proba L knn user_reduced = Inr user_pop_probs"
      "user_pop_probs \<noteq> []"
      "length (hd user_pop_probs) = length (knn_classes L knn)"
      "final_knn st = Some knn" "final_user_reduced st = Some user_reduced"
      "final_user_pop st = Some user_pop" "final_user_pop_probs st = Some user_pop_probs"
    by blast
  have "length (vals Xr) = length (index X_encoded)"
    using ref(3) steps(1,2)
    by (auto simp: dimensionality_reduction_def split: if_splits sum.splits prod.splits
             dest!: DataFrame_Inr)
  with ref steps show ?thesis by blast
qed


lemma toy_upload_run:
  "snd (main toy_lib (toy_inputs (Some ''rs1 AG; rs7 TT''))) = Inr
      \<lparr>final_X_reduced = Some [[Some 2, Some 2, Some 3], [Some 2, Some 2, Some 3],
                                [Some 2, Some 0, Some 0]],
       final_dfsamples =
         \<lparr>index = [''HG1'', ''HG2'', ''me''],
          columns = [''population'', ''super population'', ''gender''],
          vals = [[Some ''GBR'', Some ''EUR'', Some ''male''],
                  [Some ''YRI'', Some ''AFR'', Some ''female''],
                  [Some ''me'', Some ''me'', Some ''me'']]\<rparr>,
       final_aisnps_1kg =
         \<lparr>index = [''HG1'', ''HG2'', ''your_sample''],
          columns = [''rs1'', ''rs2'', ''population'', ''super population'', ''gender''],
          vals = [[Some ''AG'', Some ''CC'', Some ''GBR'', Some ''EUR'', Some ''male''],
                  [Some ''GG'', Some ''CT'', Some ''YRI'', Some ''AFR'', Some ''female''],
                  [Some ''AG'', None, None, None, None]]\<rparr>,
       final_knn = Some ([[Some 2, Some 2, Some 3], [Some 2, Some 2, Some 3]],
                         [Some ''EUR'', Some ''AFR'']),
       final_user_reduced = Some [[Some 2, Some 0, Some 0]],
       final_user_pop = Some (Some ''EUR''),
       final_user_pop_probs = Some [[Some 0, Some 1]]\<rparr>"
  by code_simp


theorem main_knn_fit_on_reference_witness:
  "user_file (toy_inputs (Some ''rs1 AG; rs7 TT'')) = Some ''rs1 AG; rs7 TT'' \<and>
   main toy_lib (toy_inputs (Some ''rs1 AG; rs7 TT''))
     = (fst (main toy_lib (toy_inputs (Some ''rs1 AG; rs7 TT''))), Inr
      \<lparr>final_X_reduced = Some [[Some 2, Some 2, Some 3], [Some 2, Some 2, Some 3],
                                [Some 2, Some 0, Some 0]],
       final_dfsamples =
         \<lparr>index = [''HG1'', ''HG2'', ''me''],
          columns = [''population'', ''super population'', ''gender''],
          vals = [[Some ''GBR'', Some ''EUR'', Some ''male''],
                  [Some ''YRI'', Some ''AFR'', Some ''female''],
                  [Some ''me'', Some ''me'', Some ''me'']]\<rparr>,
       final_aisnps_1kg =
         \<lparr>index = [''HG1'', ''HG2'', ''your_sample''],
          columns = [''rs1'', ''rs2'', ''population'', ''super population'', ''gender''],
          vals = [[Some ''AG'', Some ''CC'', Some ''GBR'', Some ''EUR'', Some ''male''],
                  [Some ''GG'', Some ''CT'', Some ''YRI'', Some ''AFR'', Some ''female''],
                  [Some ''AG'', None, None, None, None]]\<rparr>,
       final_knn = Some ([[Some 2, Some 2, Some 3], [Some 2, Some 2, Some 3]],
                         [Some ''EUR'', Some ''AFR'']),
       final_user_reduced = Some [[Some 2, Some 0, Some 0]],
       final_user_pop = Some (Some ''EUR''),
       final_user_pop_probs = Some [[Some 0, Some 1]]\<rparr>) \<and>
   knn_fit toy_lib 9 [[Some 2, Some 2, Some 3], [Some 2, Some 2, Some 3]]
       [Some ''EUR'', Some ''AFR'']
     = Inr ([[Some 2, Some 2, Some 3], [Some 2, Some 2, Some 3]], [Some ''EUR'', Some ''AFR''])"
proof -
  have a: "user_file (toy_inputs (Some ''rs1 AG; rs7 TT'')) = Some ''rs1 AG; rs7 TT''"
    by (simp add: toy_inputs_def)
  have b: "main toy_lib (toy_inputs (Some ''rs1 AG; rs7 TT''))
             = (fst (main toy_lib (toy_inputs (Some ''rs1 AG; rs7 TT''))), Inr
      \<lparr>final_X_reduced = Some [[Some 2, Some 2, Some 3], [Some 2, Some 2, Some 3],
                                [Some 2, Some 0, Some 0]],
       final_dfsamples =
         \<lparr>index = [''HG1'', ''HG2'', ''me''],
          columns = [''population'', ''super population'', ''gender''],
          vals = [[Some ''GBR'', Some ''EUR'', Some ''male''],
                  [Some ''YRI'', Some ''AFR'', Some ''female''],
                  [Some ''me'', Some ''me'', Some ''me'']]\<rparr>,
       final_aisnps_1kg =
         \<lparr>index = [''HG1'', ''HG2'', ''your_sample''],
          columns = [''rs1'', ''rs2'', ''population'', ''super population'', ''gender''],
          vals = [[Some ''AG'', Some ''CC'', Some ''GBR'', Some ''EUR'', Some ''male''],
                  [Some ''GG'', Some ''CT'', Some ''YRI'', Some ''AFR'', Some ''female''],
                  [Some ''AG'', None, None, None, None]]\<rparr>,
       final_knn = Some ([[Some 2, Some 2, Some 3], [Some 2, Some 2, Some 3]],
                         [Some ''EUR'', Some ''AFR'']),
       final_user_reduced = Some [[Some 2, Some 0, Some 0]],
       final_user_pop = Some (Some ''EUR''),
       final_user_pop_probs = Some [[Some 0, Some 1]]\<rparr>)"
    using toy_upload_run by (simp add: prod_eq_iff)
  have c: "knn_fit toy_lib 9 [[Some 2, Some 2, Some 3], [Some 2, Some 2, Some 3]]
       [Some ''EUR'', Some ''AFR'']
     = Inr ([[Some 2, Some 2, Some 3], [Some 2, Some 2, Some 3]], [Some ''EUR'', Some ''AFR''])"
    by (simp add: toy_lib_def)
  from main_knn_fit_on_reference[OF b a] a b c show ?thesis by simp
qed

end
